theory Spec2Isabelle
  imports Main "HOL-Library.Word"
begin

section \<open>The native clock bridge of SmartInspect (src/native/Clock.c)\<close>

text \<open>
  The file holds two JNI entry points, \<^verbatim>\<open>Java_com_gurock_smartinspect_Clock_getCounter\<close>
  and \<^verbatim>\<open>Java_com_gurock_smartinspect_Clock_getFrequency\<close>. Each declares one automatic
  64-bit variable, hands its address to a Windows timer query, overwrites the variable
  with 0 when the query reports failure, and returns the variable.
\<close>

subsection \<open>Values\<close>

text \<open>
  Modelled from the spec: \<^verbatim>\<open>jlong\<close> is declared in jni.h and \<^verbatim>\<open>LARGE_INTEGER\<close>
  in windows.h, neither of which is part of the repository; the spec (sections 3 and 6)
  fixes both as 64-bit signed integers. A word keeps the 64 bits; \<open>sint\<close> reads them
  in two's complement and \<open><=s\<close> is the signed order. The cast
  \<^verbatim>\<open>(LARGE_INTEGER * ) &count\<close> reinterprets the same 64 bits.
\<close>

type_synonym jlong = "64 word"

text \<open>
  \<^verbatim>\<open>BOOL\<close> of windows.h is a C \<^verbatim>\<open>int\<close>; \<^verbatim>\<open>!b\<close> holds exactly when
  \<open>b = 0\<close>.
\<close>

type_synonym BOOL = "32 word"

text \<open>
  \<^verbatim>\<open>JNIEnv *env\<close> and \<^verbatim>\<open>jclass c\<close> are references handed in by the Java
  runtime; the functions never look behind them.
\<close>

type_synonym addr = nat

subsection \<open>The operating system's answer\<close>

text \<open>
  \<^verbatim>\<open>QueryPerformanceCounter\<close> and \<^verbatim>\<open>QueryPerformanceFrequency\<close> belong to the
  operating system, so what one call of them does is a parameter of the model:
  \<open>ret\<close> is the \<^verbatim>\<open>BOOL\<close> the call returns (nonzero for success) and \<open>out\<close> is
  the 64-bit content of the variable whose address was passed, at the moment the call
  returns. After a successful call that is the counter (or the frequency); after a
  failed call it is whatever the variable then holds, written by the OS or not.
\<close>

record os_reply =
  ret :: BOOL
  out :: jlong

subsection \<open>The state of the calling thread\<close>

text \<open>
  \<open>stack\<close> is the memory that holds automatic variables, one cell per 64-bit
  variable; the cells below \<open>depth\<close> belong to variables that are alive, the cells
  from \<open>depth\<close> on are free and hold whatever was left there. \<open>pending\<close> is the Java
  exception a native method has raised through \<^verbatim>\<open>env\<close> and that the runtime throws
  when the method returns. The record is extensible: its \<open>more\<close> part stands for
  every other piece of state of the process.
\<close>

record process =
  stack :: "nat \<Rightarrow> jlong"
  depth :: nat
  pending :: "addr option"

text \<open>Entering the scope of an uninitialised automatic variable: its cell keeps its old content.\<close>

definition alloc :: "'a process_scheme \<Rightarrow> nat \<times> 'a process_scheme" where
  "alloc s = (depth s, s\<lparr>depth := depth s + 1\<rparr>)"

definition store :: "nat \<Rightarrow> jlong \<Rightarrow> 'a process_scheme \<Rightarrow> 'a process_scheme" where
  "store p v s = s\<lparr>stack := (stack s)(p := v)\<rparr>"

definition load :: "nat \<Rightarrow> 'a process_scheme \<Rightarrow> jlong" where
  "load p s = stack s p"

text \<open>Leaving the scope: the innermost cell is free again.\<close>

definition release :: "'a process_scheme \<Rightarrow> 'a process_scheme" where
  "release s = s\<lparr>depth := depth s - 1\<rparr>"

text \<open>
  What the caller of a native method can still see once it has returned: the live
  cells, the pending exception and the rest of the process.
\<close>

definition observable :: "'a process_scheme \<Rightarrow> jlong list \<times> nat \<times> addr option \<times> 'a" where
  "observable s = (map (stack s) [0..<depth s], depth s, pending s, process.more s)"

subsection \<open>The two timer queries\<close>

text \<open>
  Both queries take the address \<open>p\<close> of the variable that receives the value; when
  they return, the variable holds \<open>out\<close> and the caller gets \<open>ret\<close>.
\<close>

definition QueryPerformanceCounter ::
  "os_reply \<Rightarrow> nat \<Rightarrow> 'a process_scheme \<Rightarrow> BOOL \<times> 'a process_scheme" where
  "QueryPerformanceCounter qpc p s = (ret qpc, store p (out qpc) s)"

definition QueryPerformanceFrequency ::
  "os_reply \<Rightarrow> nat \<Rightarrow> 'a process_scheme \<Rightarrow> BOOL \<times> 'a process_scheme" where
  "QueryPerformanceFrequency qpf p s = (ret qpf, store p (out qpf) s)"

subsection \<open>The entry points\<close>

text \<open>
  \<^verbatim>\<open>jlong count;
  if (!QueryPerformanceCounter((LARGE_INTEGER * ) &count)) { count = 0; }
  return count;\<close>
  In the model \<open>count\<close> is the address of the variable.
\<close>

definition Java_com_gurock_smartinspect_Clock_getCounter ::
  "addr \<Rightarrow> addr \<Rightarrow> os_reply \<Rightarrow> 'a process_scheme \<Rightarrow> jlong \<times> 'a process_scheme" where
  "Java_com_gurock_smartinspect_Clock_getCounter env c qpc s0 =
     (let (count, s1) = alloc s0;
          (ok, s2) = QueryPerformanceCounter qpc count s1;
          s3 = (if ok = 0 then store count 0 s2 else s2)
      in (load count s3, release s3))"

text \<open>
  \<^verbatim>\<open>jlong frequency;
  if (!QueryPerformanceFrequency((LARGE_INTEGER * ) &frequency)) { frequency = 0; }
  return frequency;\<close>
\<close>

definition Java_com_gurock_smartinspect_Clock_getFrequency ::
  "addr \<Rightarrow> addr \<Rightarrow> os_reply \<Rightarrow> 'a process_scheme \<Rightarrow> jlong \<times> 'a process_scheme" where
  "Java_com_gurock_smartinspect_Clock_getFrequency env c qpf s0 =
     (let (frequency, s1) = alloc s0;
          (ok, s2) = QueryPerformanceFrequency qpf frequency s1;
          s3 = (if ok = 0 then store frequency 0 s2 else s2)
      in (load frequency s3, release s3))"

subsection \<open>Runs of calls\<close>

text \<open>
  A thread that calls the same entry point again and again: the i-th call is answered
  by the i-th reply of the operating system and starts in the state the call before it
  left behind. The result is the list of returned values and the final state.
\<close>

fun calls :: "(os_reply \<Rightarrow> 's \<Rightarrow> jlong \<times> 's) \<Rightarrow> os_reply list \<Rightarrow> 's \<Rightarrow> jlong list \<times> 's" where
  "calls f [] s = ([], s)"
| "calls f (r # rs) s =
     (let (v, s1) = f r s;
          (vs, s2) = calls f rs s1
      in (v # vs, s2))"

text \<open>The replies of a run on which the query succeeded, in the order of the calls.\<close>

definition succeeded :: "os_reply list \<Rightarrow> os_reply list" where
  "succeeded rs = filter (\<lambda>r. ret r \<noteq> 0) rs"

section \<open>What one call does\<close>

lemma getCounter_value:
  "fst (Java_com_gurock_smartinspect_Clock_getCounter env c qpc s) =
     (if ret qpc = 0 then 0 else out qpc)"
  by (simp add: Java_com_gurock_smartinspect_Clock_getCounter_def alloc_def
      QueryPerformanceCounter_def store_def load_def)

lemma getFrequency_value:
  "fst (Java_com_gurock_smartinspect_Clock_getFrequency env c qpf s) =
     (if ret qpf = 0 then 0 else out qpf)"
  by (simp add: Java_com_gurock_smartinspect_Clock_getFrequency_def alloc_def
      QueryPerformanceFrequency_def store_def load_def)

text \<open>The only cell a call writes is the first free one, which is free again afterwards.\<close>

lemma getCounter_state:
  "snd (Java_com_gurock_smartinspect_Clock_getCounter env c qpc s) =
     s\<lparr>stack := (stack s)(depth s := if ret qpc = 0 then 0 else out qpc)\<rparr>"
  by (simp add: Java_com_gurock_smartinspect_Clock_getCounter_def alloc_def
      QueryPerformanceCounter_def store_def load_def release_def)

lemma getFrequency_state:
  "snd (Java_com_gurock_smartinspect_Clock_getFrequency env c qpf s) =
     s\<lparr>stack := (stack s)(depth s := if ret qpf = 0 then 0 else out qpf)\<rparr>"
  by (simp add: Java_com_gurock_smartinspect_Clock_getFrequency_def alloc_def
      QueryPerformanceFrequency_def store_def load_def release_def)

lemma observable_free_cell:
  "observable (s\<lparr>stack := (stack s)(depth s := v)\<rparr>) = observable s"
  by (simp add: observable_def)

lemma observable_getCounter:
  "observable (snd (Java_com_gurock_smartinspect_Clock_getCounter env c qpc s)) = observable s"
  by (simp only: getCounter_state observable_free_cell)

lemma observable_getFrequency:
  "observable (snd (Java_com_gurock_smartinspect_Clock_getFrequency env c qpf s)) = observable s"
  by (simp only: getFrequency_state observable_free_cell)

section \<open>What a run of calls does\<close>

lemma fst_calls_getCounter:
  "fst (calls (Java_com_gurock_smartinspect_Clock_getCounter env c) rs s) =
     map (\<lambda>r. if ret r = 0 then 0 else out r) rs"
  by (induction rs arbitrary: s) (simp_all add: split_def Let_def getCounter_value)

lemma fst_calls_getFrequency:
  "fst (calls (Java_com_gurock_smartinspect_Clock_getFrequency env c) rs s) =
     map (\<lambda>r. if ret r = 0 then 0 else out r) rs"
  by (induction rs arbitrary: s) (simp_all add: split_def Let_def getFrequency_value)

lemma observable_calls:
  "(\<And>r s. observable (snd (f r s)) = observable s) \<Longrightarrow>
   observable (snd (calls f rs s)) = observable s"
  by (induction rs arbitrary: s) (simp_all add: split_def Let_def)

text \<open>
  If the readings of the successful queries of a run are ordered by \<open>P\<close>, so are
  the readings of any two successful calls, the earlier against the later.
\<close>

lemma sorted_succeeded_nth:
  "sorted_wrt P (map out (succeeded rs)) \<Longrightarrow> i < j \<Longrightarrow> j < length rs \<Longrightarrow>
   ret (rs ! i) \<noteq> 0 \<Longrightarrow> ret (rs ! j) \<noteq> 0 \<Longrightarrow> P (out (rs ! i)) (out (rs ! j))"
proof (induction rs arbitrary: i j)
  case Nil
  then show ?case by simp
next
  case (Cons r rs)
  from Cons.prems(2) obtain j' where j: "j = Suc j'"
    by (cases j) simp_all
  show ?case
  proof (cases i)
    case 0
    with Cons.prems j have "rs ! j' \<in> set (succeeded rs)"
      by (simp add: succeeded_def)
    with Cons.prems 0 j show ?thesis
      by (simp add: succeeded_def)
  next
    case (Suc i')
    from Cons.prems(1) have "sorted_wrt P (map out (succeeded rs))"
      by (simp add: succeeded_def split: if_splits)
    with Cons.IH [of i' j'] Cons.prems Suc j show ?thesis
      by simp
  qed
qed

section \<open>The claims of the specification\<close>

text \<open>
  Claim C1. When the counter query succeeds, \<open>getCounter\<close> returns exactly the 64-bit
  value the query left in the variable; when the query fails, \<open>getCounter\<close> returns
  0, whatever the variable held after the call.
\<close>

theorem getCounter_counter_or_zero:
  "(ret qpc \<noteq> 0 \<longrightarrow>
      fst (Java_com_gurock_smartinspect_Clock_getCounter env c qpc s) = out qpc) \<and>
   (ret qpc = 0 \<longrightarrow>
      fst (Java_com_gurock_smartinspect_Clock_getCounter env c qpc s) = 0)"
proof (cases "ret qpc = 0")
  case True
  \<comment> \<open>the branch \<^verbatim>\<open>count = 0\<close> is taken and overwrites what the query left\<close>
  then show ?thesis
    by (simp add: Java_com_gurock_smartinspect_Clock_getCounter_def alloc_def
        QueryPerformanceCounter_def store_def load_def)
next
  case False
  \<comment> \<open>the branch is skipped: \<^verbatim>\<open>count\<close> still holds what the query left\<close>
  then show ?thesis
    by (simp add: Java_com_gurock_smartinspect_Clock_getCounter_def alloc_def
        QueryPerformanceCounter_def store_def load_def)
qed

theorem getCounter_counter_or_zero_witness:
  "fst (Java_com_gurock_smartinspect_Clock_getCounter 16 32 \<lparr>ret = 1, out = 8412345678\<rparr>
         \<lparr>stack = (\<lambda>_. 77), depth = 2, pending = None\<rparr>) = 8412345678 \<and>
   fst (Java_com_gurock_smartinspect_Clock_getCounter 16 32 \<lparr>ret = 0, out = 8412345678\<rparr>
         \<lparr>stack = (\<lambda>_. 77), depth = 2, pending = None\<rparr>) = 0"
  using getCounter_counter_or_zero [of "\<lparr>ret = 1, out = 8412345678\<rparr>" 16 32
      "\<lparr>stack = (\<lambda>_. 77), depth = 2, pending = None\<rparr>"]
    getCounter_counter_or_zero [of "\<lparr>ret = 0, out = 8412345678\<rparr>" 16 32
      "\<lparr>stack = (\<lambda>_. 77), depth = 2, pending = None\<rparr>"]
  by simp

text \<open>
  Claim C2. When the frequency query succeeds, \<open>getFrequency\<close> returns exactly the
  ticks-per-second value the query left in the variable; when the query fails,
  \<open>getFrequency\<close> returns 0.
\<close>

theorem getFrequency_frequency_or_zero:
  "(ret qpf \<noteq> 0 \<longrightarrow>
      fst (Java_com_gurock_smartinspect_Clock_getFrequency env c qpf s) = out qpf) \<and>
   (ret qpf = 0 \<longrightarrow>
      fst (Java_com_gurock_smartinspect_Clock_getFrequency env c qpf s) = 0)"
proof (cases "ret qpf = 0")
  case True
  then show ?thesis
    by (simp add: Java_com_gurock_smartinspect_Clock_getFrequency_def alloc_def
        QueryPerformanceFrequency_def store_def load_def)
next
  case False
  then show ?thesis
    by (simp add: Java_com_gurock_smartinspect_Clock_getFrequency_def alloc_def
        QueryPerformanceFrequency_def store_def load_def)
qed

theorem getFrequency_frequency_or_zero_witness:
  "fst (Java_com_gurock_smartinspect_Clock_getFrequency 16 32 \<lparr>ret = 1, out = 10000000\<rparr>
         \<lparr>stack = (\<lambda>_. 77), depth = 2, pending = None\<rparr>) = 10000000 \<and>
   fst (Java_com_gurock_smartinspect_Clock_getFrequency 16 32 \<lparr>ret = 0, out = 10000000\<rparr>
         \<lparr>stack = (\<lambda>_. 77), depth = 2, pending = None\<rparr>) = 0"
  using getFrequency_frequency_or_zero [of "\<lparr>ret = 1, out = 10000000\<rparr>" 16 32
      "\<lparr>stack = (\<lambda>_. 77), depth = 2, pending = None\<rparr>"]
    getFrequency_frequency_or_zero [of "\<lparr>ret = 0, out = 10000000\<rparr>" 16 32
      "\<lparr>stack = (\<lambda>_. 77), depth = 2, pending = None\<rparr>"]
  by simp

text \<open>
  Claim C3. Neither entry point raises anything, whatever the query answers. Both are
  total functions of the reply that return a 64-bit value; a native method raises a Java
  exception by leaving it pending on the thread, and both leave \<open>pending\<close> as they
  found it. A failed query shows as the returned value 0 and as nothing else: the
  observable state after the call is the one before it.
\<close>

theorem failure_is_only_the_sentinel:
  "pending (snd (Java_com_gurock_smartinspect_Clock_getCounter env c qpc s)) = pending s \<and>
   pending (snd (Java_com_gurock_smartinspect_Clock_getFrequency env c qpf s)) = pending s \<and>
   (ret qpc = 0 \<longrightarrow>
      fst (Java_com_gurock_smartinspect_Clock_getCounter env c qpc s) = 0 \<and>
      observable (snd (Java_com_gurock_smartinspect_Clock_getCounter env c qpc s)) = observable s) \<and>
   (ret qpf = 0 \<longrightarrow>
      fst (Java_com_gurock_smartinspect_Clock_getFrequency env c qpf s) = 0 \<and>
      observable (snd (Java_com_gurock_smartinspect_Clock_getFrequency env c qpf s)) = observable s)"
proof -
  have "pending (snd (Java_com_gurock_smartinspect_Clock_getCounter env c qpc s)) = pending s"
    and "pending (snd (Java_com_gurock_smartinspect_Clock_getFrequency env c qpf s)) = pending s"
    by (simp_all add: getCounter_state getFrequency_state)
  moreover have "ret qpc = 0 \<longrightarrow>
      fst (Java_com_gurock_smartinspect_Clock_getCounter env c qpc s) = 0"
    and "ret qpf = 0 \<longrightarrow>
      fst (Java_com_gurock_smartinspect_Clock_getFrequency env c qpf s) = 0"
    by (simp_all add: getCounter_value getFrequency_value)
  ultimately show ?thesis
    by (simp add: observable_getCounter observable_getFrequency)
qed

theorem failure_is_only_the_sentinel_witness:
  "Java_com_gurock_smartinspect_Clock_getCounter 16 32 \<lparr>ret = 0, out = 5\<rparr>
      \<lparr>stack = (\<lambda>_. 77), depth = 2, pending = None\<rparr> =
     (0, \<lparr>stack = (\<lambda>_. 77)(2 := 0), depth = 2, pending = None\<rparr>) \<and>
   fst (Java_com_gurock_smartinspect_Clock_getFrequency 16 32 \<lparr>ret = 0, out = 5\<rparr>
      \<lparr>stack = (\<lambda>_. 77), depth = 2, pending = None\<rparr>) = 0 \<and>
   pending (snd (Java_com_gurock_smartinspect_Clock_getFrequency 16 32 \<lparr>ret = 0, out = 5\<rparr>
      \<lparr>stack = (\<lambda>_. 77), depth = 2, pending = None\<rparr>)) = None"
  using failure_is_only_the_sentinel [of 16 32 "\<lparr>ret = 0, out = 5\<rparr>"
      "\<lparr>stack = (\<lambda>_. 77), depth = 2, pending = None\<rparr>" "\<lparr>ret = 0, out = 5\<rparr>"]
  by (simp add: prod_eq_iff getCounter_state)

text \<open>
  Claim C4, as amended. \<open>getCounter\<close> hands the reading of the operating system
  through and does nothing to keep it monotonic, so the order of the returned values is
  the order of the readings. Provided the readings of the successful queries of a run
  are non-decreasing in the signed 64-bit order (the monotonic counter the specification
  expects of the operating system), the values \<open>getCounter\<close> returns in that run are
  too: if every call succeeds they are non-decreasing; in any run, when call \<open>i\<close>
  comes before call \<open>j\<close> and both succeed, the value of call \<open>i\<close> is at most the
  value of call \<open>j\<close>; and a value that lies below the value of an earlier successful
  call is the 0 of a failed call.
\<close>

theorem getCounter_monotone:
  assumes os: "sorted_wrt word_sle (map out (succeeded rs))"
  shows "((\<forall>r \<in> set rs. ret r \<noteq> 0) \<longrightarrow>
            sorted_wrt word_sle
              (fst (calls (Java_com_gurock_smartinspect_Clock_getCounter env c) rs s))) \<and>
         (\<forall>i j. i < j \<and> j < length rs \<and> ret (rs ! i) \<noteq> 0 \<and> ret (rs ! j) \<noteq> 0 \<longrightarrow>
            fst (calls (Java_com_gurock_smartinspect_Clock_getCounter env c) rs s) ! i <=s
            fst (calls (Java_com_gurock_smartinspect_Clock_getCounter env c) rs s) ! j) \<and>
         (\<forall>i j. i < j \<and> j < length rs \<and> ret (rs ! i) \<noteq> 0 \<and>
            fst (calls (Java_com_gurock_smartinspect_Clock_getCounter env c) rs s) ! j <s
            fst (calls (Java_com_gurock_smartinspect_Clock_getCounter env c) rs s) ! i \<longrightarrow>
            ret (rs ! j) = 0 \<and>
            fst (calls (Java_com_gurock_smartinspect_Clock_getCounter env c) rs s) ! j = 0)"
proof (intro conjI impI allI)
  let ?vs = "fst (calls (Java_com_gurock_smartinspect_Clock_getCounter env c) rs s)"
  have vs: "?vs = map (\<lambda>r. if ret r = 0 then 0 else out r) rs"
    by (rule fst_calls_getCounter)
  {
    assume all: "\<forall>r \<in> set rs. ret r \<noteq> 0"
    then have "succeeded rs = rs" and "?vs = map out rs"
      by (simp_all add: succeeded_def vs)
    with os show "sorted_wrt word_sle ?vs"
      by simp
  }
  {
    fix i j
    assume "i < j \<and> j < length rs \<and> ret (rs ! i) \<noteq> 0 \<and> ret (rs ! j) \<noteq> 0"
    with sorted_succeeded_nth [OF os, of i j] show "?vs ! i <=s ?vs ! j"
      by (simp add: vs)
  }
  {
    fix i j
    assume a: "i < j \<and> j < length rs \<and> ret (rs ! i) \<noteq> 0 \<and> ?vs ! j <s ?vs ! i"
    then have len: "i < length rs" "j < length rs"
      by simp_all
    have "ret (rs ! j) = 0"
    proof (rule ccontr)
      assume "ret (rs ! j) \<noteq> 0"
      with a len sorted_succeeded_nth [OF os, of i j] show False
        by (auto simp add: vs word_sless_alt word_sle_eq)
    qed
    with len show "ret (rs ! j) = 0" and "?vs ! j = 0"
      by (simp_all add: vs)
  }
qed

theorem getCounter_monotone_witness:
  "fst (calls (Java_com_gurock_smartinspect_Clock_getCounter 16 32)
      [\<lparr>ret = 1, out = 100\<rparr>, \<lparr>ret = 0, out = 7\<rparr>, \<lparr>ret = 1, out = 250\<rparr>]
      \<lparr>stack = (\<lambda>_. 77), depth = 2, pending = None\<rparr>) = [100, 0, 250] \<and>
   fst (calls (Java_com_gurock_smartinspect_Clock_getCounter 16 32)
      [\<lparr>ret = 1, out = 100\<rparr>, \<lparr>ret = 0, out = 7\<rparr>, \<lparr>ret = 1, out = 250\<rparr>]
      \<lparr>stack = (\<lambda>_. 77), depth = 2, pending = None\<rparr>) ! 0 <=s
   fst (calls (Java_com_gurock_smartinspect_Clock_getCounter 16 32)
      [\<lparr>ret = 1, out = 100\<rparr>, \<lparr>ret = 0, out = 7\<rparr>, \<lparr>ret = 1, out = 250\<rparr>]
      \<lparr>stack = (\<lambda>_. 77), depth = 2, pending = None\<rparr>) ! 2"
proof -
  let ?rs = "[\<lparr>ret = 1, out = 100\<rparr>, \<lparr>ret = 0, out = 7\<rparr>, \<lparr>ret = 1, out = 250\<rparr>]"
  have os: "sorted_wrt word_sle (map out (succeeded ?rs))"
    by (simp add: succeeded_def)
  have "\<forall>i j. i < j \<and> j < length ?rs \<and> ret (?rs ! i) \<noteq> 0 \<and> ret (?rs ! j) \<noteq> 0 \<longrightarrow>
      fst (calls (Java_com_gurock_smartinspect_Clock_getCounter 16 32) ?rs
        \<lparr>stack = (\<lambda>_. 77), depth = 2, pending = None\<rparr>) ! i <=s
      fst (calls (Java_com_gurock_smartinspect_Clock_getCounter 16 32) ?rs
        \<lparr>stack = (\<lambda>_. 77), depth = 2, pending = None\<rparr>) ! j"
    using getCounter_monotone [OF os] by blast
  from this [rule_format, of 0 2] show ?thesis
    by (simp add: fst_calls_getCounter del: calls.simps)
qed

text \<open>
  Claim C4 as the specification words it, with no condition on the operating system,
  does not hold of the code: in a run of two calls whose queries both succeed, with the
  readings 250 and then 100, \<open>getCounter\<close> returns 250 and then 100.
\<close>

theorem getCounter_monotone_counterexample:
  "ret \<lparr>ret = 1, out = 250\<rparr> \<noteq> 0 \<and> ret \<lparr>ret = 1, out = 100\<rparr> \<noteq> 0 \<and>
   fst (calls (Java_com_gurock_smartinspect_Clock_getCounter 16 32)
      [\<lparr>ret = 1, out = 250\<rparr>, \<lparr>ret = 1, out = 100\<rparr>]
      \<lparr>stack = (\<lambda>_. 77), depth = 2, pending = None\<rparr>) = [250, 100] \<and>
   \<not> sorted_wrt word_sle
      (fst (calls (Java_com_gurock_smartinspect_Clock_getCounter 16 32)
         [\<lparr>ret = 1, out = 250\<rparr>, \<lparr>ret = 1, out = 100\<rparr>]
         \<lparr>stack = (\<lambda>_. 77), depth = 2, pending = None\<rparr>))"
proof -
  have vs: "fst (calls (Java_com_gurock_smartinspect_Clock_getCounter 16 32)
      [\<lparr>ret = 1, out = 250\<rparr>, \<lparr>ret = 1, out = 100\<rparr>]
      \<lparr>stack = (\<lambda>_. 77), depth = 2, pending = None\<rparr>) = [250, 100]"
    by (simp add: fst_calls_getCounter del: calls.simps)
  have "\<not> sorted_wrt word_sle [250, 100 :: jlong]"
    by simp
  with vs show ?thesis
    by simp
qed

text \<open>
  Claim C5. Take any two calls of \<open>getFrequency\<close> in a run, calls \<open>i\<close> and \<open>j\<close>,
  for which the platform is healthy: both queries succeed and report the same frequency.
  Then the two calls return the same value.
\<close>

theorem getFrequency_stable:
  assumes "i < length rs" and "j < length rs"
    and "ret (rs ! i) \<noteq> 0" and "ret (rs ! j) \<noteq> 0"
    and "out (rs ! i) = out (rs ! j)"
  shows "fst (calls (Java_com_gurock_smartinspect_Clock_getFrequency env c) rs s) ! i =
         fst (calls (Java_com_gurock_smartinspect_Clock_getFrequency env c) rs s) ! j"
  using assms by (simp add: fst_calls_getFrequency)

theorem getFrequency_stable_witness:
  "fst (calls (Java_com_gurock_smartinspect_Clock_getFrequency 16 32)
      [\<lparr>ret = 1, out = 10000000\<rparr>, \<lparr>ret = 0, out = 3\<rparr>, \<lparr>ret = 1, out = 10000000\<rparr>]
      \<lparr>stack = (\<lambda>_. 77), depth = 2, pending = None\<rparr>) ! 0 =
   fst (calls (Java_com_gurock_smartinspect_Clock_getFrequency 16 32)
      [\<lparr>ret = 1, out = 10000000\<rparr>, \<lparr>ret = 0, out = 3\<rparr>, \<lparr>ret = 1, out = 10000000\<rparr>]
      \<lparr>stack = (\<lambda>_. 77), depth = 2, pending = None\<rparr>) ! 2"
  by (rule getFrequency_stable) simp_all

text \<open>
  Claim C6. A call of either entry point leaves the observable state of the process as
  it found it: the only memory it writes is its own automatic variable, which no longer
  exists when the call has returned. The same holds for any run of calls, and nothing
  is cached: every call of a run returns what a lone call, started in any state \<open>t\<close>,
  returns for the same reply.
\<close>

theorem calls_leave_no_trace:
  "observable (snd (Java_com_gurock_smartinspect_Clock_getCounter env c qpc s)) = observable s \<and>
   observable (snd (Java_com_gurock_smartinspect_Clock_getFrequency env c qpf s)) = observable s \<and>
   observable (snd (calls (Java_com_gurock_smartinspect_Clock_getCounter env c) rs s)) = observable s \<and>
   observable (snd (calls (Java_com_gurock_smartinspect_Clock_getFrequency env c) rs s)) = observable s \<and>
   fst (calls (Java_com_gurock_smartinspect_Clock_getCounter env c) rs s) =
     map (\<lambda>r. fst (Java_com_gurock_smartinspect_Clock_getCounter env c r t)) rs \<and>
   fst (calls (Java_com_gurock_smartinspect_Clock_getFrequency env c) rs s) =
     map (\<lambda>r. fst (Java_com_gurock_smartinspect_Clock_getFrequency env c r t)) rs"
  by (simp add: observable_getCounter observable_getFrequency observable_calls
      fst_calls_getCounter fst_calls_getFrequency getCounter_value getFrequency_value)

text \<open>
  Claim C7. There are a failed reply and a successful reply whose value is 0 that no
  caller can tell apart: for both, \<open>getFrequency\<close> returns 0 and \<open>getCounter\<close>
  returns 0, and the observable states after the two calls are equal.
\<close>

theorem zero_hides_failure:
  "\<exists>failed zero.
     ret failed = 0 \<and> ret zero \<noteq> 0 \<and> out zero = 0 \<and>
     fst (Java_com_gurock_smartinspect_Clock_getFrequency env c failed s) = 0 \<and>
     fst (Java_com_gurock_smartinspect_Clock_getFrequency env c zero s) = 0 \<and>
     fst (Java_com_gurock_smartinspect_Clock_getCounter env c failed s) = 0 \<and>
     fst (Java_com_gurock_smartinspect_Clock_getCounter env c zero s) = 0 \<and>
     observable (snd (Java_com_gurock_smartinspect_Clock_getFrequency env c failed s)) =
       observable (snd (Java_com_gurock_smartinspect_Clock_getFrequency env c zero s)) \<and>
     observable (snd (Java_com_gurock_smartinspect_Clock_getCounter env c failed s)) =
       observable (snd (Java_com_gurock_smartinspect_Clock_getCounter env c zero s))"
proof (intro exI conjI)
  show "ret \<lparr>ret = 0, out = 10000000\<rparr> = 0" by simp
  show "ret \<lparr>ret = 1, out = 0\<rparr> \<noteq> 0" by simp
  show "out \<lparr>ret = 1, out = 0\<rparr> = 0" by simp
qed (simp_all add: getCounter_value getFrequency_value observable_getCounter
    observable_getFrequency)

text \<open>
  Claim C8. Every value the two entry points return is a 64-bit two's-complement
  integer: read as signed it lies between \<open>- 2 ^ 63\<close> and \<open>2 ^ 63 - 1\<close>. After a
  successful query it is the value the query wrote, with all of its 64 bits.
\<close>

theorem results_are_int64:
  "- (2 ^ 63) \<le> sint (fst (Java_com_gurock_smartinspect_Clock_getCounter env c qpc s)) \<and>
   sint (fst (Java_com_gurock_smartinspect_Clock_getCounter env c qpc s)) < 2 ^ 63 \<and>
   - (2 ^ 63) \<le> sint (fst (Java_com_gurock_smartinspect_Clock_getFrequency env c qpf s)) \<and>
   sint (fst (Java_com_gurock_smartinspect_Clock_getFrequency env c qpf s)) < 2 ^ 63 \<and>
   (ret qpc \<noteq> 0 \<longrightarrow>
      sint (fst (Java_com_gurock_smartinspect_Clock_getCounter env c qpc s)) = sint (out qpc)) \<and>
   (ret qpf \<noteq> 0 \<longrightarrow>
      sint (fst (Java_com_gurock_smartinspect_Clock_getFrequency env c qpf s)) = sint (out qpf))"
proof -
  have "- (2 ^ 63) \<le> sint w \<and> sint w < 2 ^ 63" for w :: jlong
    using sint_ge [of w] sint_lt [of w] by simp
  then show ?thesis
    by (simp add: getCounter_value getFrequency_value)
qed

theorem results_are_int64_witness:
  "sint (fst (Java_com_gurock_smartinspect_Clock_getCounter 16 32
      \<lparr>ret = 1, out = 9223372036854775807\<rparr>
      \<lparr>stack = (\<lambda>_. 77), depth = 2, pending = None\<rparr>)) = 9223372036854775807 \<and>
   sint (fst (Java_com_gurock_smartinspect_Clock_getFrequency 16 32
      \<lparr>ret = 1, out = 4294967301\<rparr>
      \<lparr>stack = (\<lambda>_. 77), depth = 2, pending = None\<rparr>)) = 4294967301"
  using results_are_int64 [of 16 32 "\<lparr>ret = 1, out = 9223372036854775807\<rparr>"
      "\<lparr>stack = (\<lambda>_. 77), depth = 2, pending = None\<rparr>" "\<lparr>ret = 1, out = 4294967301\<rparr>"]
  by simp

text \<open>
  Claim C10. The two entry points never read \<open>env\<close> or \<open>c\<close>: with the same reply
  and the same state, calls with different \<open>env\<close> and \<open>c\<close> return the same value and
  leave the same state; and the value returned is the same from any two states \<open>s\<close> and
  \<open>t\<close>, so it depends on the reply of the operating system alone.
\<close>

theorem env_and_class_are_ignored:
  "Java_com_gurock_smartinspect_Clock_getCounter env c qpc s =
     Java_com_gurock_smartinspect_Clock_getCounter env' c' qpc s \<and>
   Java_com_gurock_smartinspect_Clock_getFrequency env c qpf s =
     Java_com_gurock_smartinspect_Clock_getFrequency env' c' qpf s \<and>
   fst (Java_com_gurock_smartinspect_Clock_getCounter env c qpc s) =
     fst (Java_com_gurock_smartinspect_Clock_getCounter env' c' qpc t) \<and>
   fst (Java_com_gurock_smartinspect_Clock_getFrequency env c qpf s) =
     fst (Java_com_gurock_smartinspect_Clock_getFrequency env' c' qpf t)"
  by (simp add: prod_eq_iff getCounter_value getFrequency_value getCounter_state
      getFrequency_state)

end
